theory Spec2Isabelle
  imports Complex_Main "HOL-Library.Sublist" "HOL-Library.Multiset"
begin

section \<open>JavaScript values\<close>

text \<open>
  A JavaScript \<^verbatim>\<open>number\<close> is modelled as a real: finite values with exact arithmetic.
  The program computes in binary64, so a value that \<^verbatim>\<open>Math.round\<close> meets exactly on a tie
  here can lie just beside the tie there, and the two then round to neighbouring integers.
  The statements proved below are those that hold whichever way such a tie goes.
  The non-finite values that the code can itself produce from finite inputs
  (\<^verbatim>\<open>Infinity\<close> as a range bound, \<^verbatim>\<open>Math.log10\<close> of a non-positive argument) are
  modelled explicitly below. A field typed \<^verbatim>\<open>T | null | undefined\<close> is a \<open>T option\<close>:
  the code only uses \<^verbatim>\<open>== null\<close>, \<^verbatim>\<open>??\<close>, truthiness and \<^verbatim>\<open>===\<close> against a number on
  such fields, none of which tells \<^verbatim>\<open>null\<close> from \<^verbatim>\<open>undefined\<close>.
\<close>

type_synonym number = real

text \<open>Truthiness of a nullable string, number and boolean.\<close>

definition truthy_string :: "string option \<Rightarrow> bool" where
  "truthy_string s = (case s of None \<Rightarrow> False | Some v \<Rightarrow> v \<noteq> [])"

definition truthy_number :: "number option \<Rightarrow> bool" where
  "truthy_number n = (case n of None \<Rightarrow> False | Some v \<Rightarrow> v \<noteq> 0)"

definition truthy_bool :: "bool option \<Rightarrow> bool" where
  "truthy_bool b = (case b of None \<Rightarrow> False | Some v \<Rightarrow> v)"

text \<open>\<^verbatim>\<open>Math.round\<close>: the nearest integer, a tie going up.\<close>

definition Math_round :: "number \<Rightarrow> number" where
  "Math_round x = of_int \<lfloor>x + 1 / 2\<rfloor>"

section \<open>funding.ts\<close>

subsection \<open>formatAmountRange\<close>

datatype bound = Finite number | Infinity

fun below :: "number \<Rightarrow> bound \<Rightarrow> bool" where
  "below a (Finite m) = (a < m)"
| "below a Infinity = True"

record range =
  range_min :: number
  range_max :: bound
  range_label :: string

definition ranges :: "range list" where
  "ranges =
    [\<lparr>range_min = 0, range_max = Finite 100, range_label = ''<$100''\<rparr>,
     \<lparr>range_min = 100, range_max = Finite 500, range_label = ''$100-500''\<rparr>,
     \<lparr>range_min = 500, range_max = Finite 1000, range_label = ''$500-1K''\<rparr>,
     \<lparr>range_min = 1000, range_max = Finite 5000, range_label = ''$1K-5K''\<rparr>,
     \<lparr>range_min = 5000, range_max = Finite 10000, range_label = ''$5K-10K''\<rparr>,
     \<lparr>range_min = 10000, range_max = Finite 25000, range_label = ''$10K-25K''\<rparr>,
     \<lparr>range_min = 25000, range_max = Finite 50000, range_label = ''$25K-50K''\<rparr>,
     \<lparr>range_min = 50000, range_max = Finite 100000, range_label = ''$50K-100K''\<rparr>,
     \<lparr>range_min = 100000, range_max = Finite 250000, range_label = ''$100K-250K''\<rparr>,
     \<lparr>range_min = 250000, range_max = Finite 500000, range_label = ''$250K-500K''\<rparr>,
     \<lparr>range_min = 500000, range_max = Finite 1000000, range_label = ''$500K-1M''\<rparr>,
     \<lparr>range_min = 1000000, range_max = Infinity, range_label = ''>$1M''\<rparr>]"

definition in_range :: "number \<Rightarrow> range \<Rightarrow> bool" where
  "in_range amount r = (amount \<ge> range_min r \<and> below amount (range_max r))"

text \<open>The \<^verbatim>\<open>for\<close> loop over the ranges, with the fall-through label of the source.\<close>

fun first_range :: "number \<Rightarrow> range list \<Rightarrow> string" where
  "first_range amount [] = ''>$1M''"
| "first_range amount (r # rs) =
     (if in_range amount r then range_label r else first_range amount rs)"

definition formatAmountRange :: "number option \<Rightarrow> string option" where
  "formatAmountRange amount =
     (case amount of
        None \<Rightarrow> None
      | Some a \<Rightarrow> if a \<le> 0 then None else Some (first_range a ranges))"

definition formatMonthlyRange :: "number option \<Rightarrow> string option" where
  "formatMonthlyRange yearlyAmount =
     (case yearlyAmount of
        None \<Rightarrow> None
      | Some y \<Rightarrow>
          if y \<le> 0 then None
          else (let monthly = y / 12 in
                case formatAmountRange (Some monthly) of
                  None \<Rightarrow> None
                | Some r \<Rightarrow> if r \<noteq> [] then Some (r @ ''/mo'') else None))"

subsection \<open>buildFundingSummary\<close>

record TopSponsor =
  sponsor_name :: string
  imageUrl :: "string option"
  sponsor_profileUrl :: string

text \<open>
  A GitHub sponsor as the crawler stores it: the fields of a \<open>TopSponsor\<close>, and
  \<^verbatim>\<open>avatarUrl\<close>, which the source reads through a cast.
\<close>

record GhSponsor = TopSponsor +
  avatarUrl :: "string option"

datatype Platform = OpenCollective | GitHub

record FundingSummary =
  platform :: Platform
  profileUrl :: string
  balanceRange :: "string option"
  monthlyIncomeRange :: "string option"
  sponsorCount :: number
  goalProgress :: "number option"
  topSponsors :: "TopSponsor list"

record PackageWithFunding =
  ocSlug :: "string option"
  pkg_ocBalance :: "number option"
  pkg_ocYearlyIncome :: "number option"
  ocBackersCount :: "number option"
  ocGoalAmount :: "number option"
  ocGoalProgress :: "number option"
  ocTopSponsors :: "TopSponsor list option"
  ghHasSponsorsListing :: "bool option"
  ghSponsorsCount :: "number option"
  ghTopSponsors :: "GhSponsor list option"
  repositoryOwner :: "string option"

text \<open>\<^verbatim>\<open>x || 0\<close> on a nullable number.\<close>

definition or_zero :: "number option \<Rightarrow> number" where
  "or_zero n = (if truthy_number n then the n else 0)"

definition normalizeSponsor :: "GhSponsor \<Rightarrow> TopSponsor" where
  "normalizeSponsor s =
     \<lparr>sponsor_name = sponsor_name s,
      imageUrl = (case avatarUrl s of Some a \<Rightarrow> Some a | None \<Rightarrow> imageUrl s),
      sponsor_profileUrl = sponsor_profileUrl s\<rparr>"

definition buildFundingSummary :: "PackageWithFunding \<Rightarrow> FundingSummary option" where
  "buildFundingSummary pkg =
     (if truthy_string (ocSlug pkg) then
        Some \<lparr>platform = OpenCollective,
              profileUrl = ''https://opencollective.com/'' @ the (ocSlug pkg),
              balanceRange = formatAmountRange (pkg_ocBalance pkg),
              monthlyIncomeRange = formatMonthlyRange (pkg_ocYearlyIncome pkg),
              sponsorCount = or_zero (ocBackersCount pkg),
              goalProgress = ocGoalProgress pkg,
              topSponsors = (case ocTopSponsors pkg of None \<Rightarrow> [] | Some ss \<Rightarrow> ss)\<rparr>
      else if truthy_bool (ghHasSponsorsListing pkg) \<and> truthy_string (repositoryOwner pkg) then
        (let ghSponsors = (case ghTopSponsors pkg of None \<Rightarrow> [] | Some ss \<Rightarrow> ss);
             normalizedSponsors = map normalizeSponsor ghSponsors
         in Some \<lparr>platform = GitHub,
                  profileUrl = ''https://github.com/sponsors/'' @ the (repositoryOwner pkg),
                  balanceRange = None,
                  monthlyIncomeRange = None,
                  sponsorCount = or_zero (ghSponsorsCount pkg),
                  goalProgress = None,
                  topSponsors = normalizedSponsors\<rparr>)
      else None)"

definition hasFundingData :: "PackageWithFunding \<Rightarrow> bool" where
  "hasFundingData pkg =
     (truthy_string (ocSlug pkg) \<or>
      (truthy_bool (ghHasSponsorsListing pkg) \<and> truthy_string (repositoryOwner pkg)))"

section \<open>scoring.ts\<close>

subsection \<open>Data model\<close>

datatype SustainabilityCategory = Critical | NeedsSupport | Stable | Thriving | Corporate

text \<open>The string that each category is in the source.\<close>

fun categoryString :: "SustainabilityCategory \<Rightarrow> string" where
  "categoryString Critical = ''critical''"
| "categoryString NeedsSupport = ''needs-support''"
| "categoryString Stable = ''stable''"
| "categoryString Thriving = ''thriving''"
| "categoryString Corporate = ''corporate''"

record ScoringInputs =
  weeklyDownloads :: "number option"
  dependentCount :: "number option"
  ocBalance :: "number option"
  ocYearlyIncome :: "number option"
  githubSponsors :: "bool option"
  corporateBacking :: "string option"
  maintainerCount :: "number option"
  daysSinceLastPublish :: "number option"
  aiDisruptionFlag :: "bool option"
  maintainerStatus :: "SustainabilityCategory option"

text \<open>The fields of \<open>ScoringWeights\<close> carry the prefix \<open>w_\<close>: five of them share
  their name with a field of \<open>ScoringInputs\<close>.\<close>

record ScoringWeights =
  w_downloads :: number
  w_dependents :: number
  w_ocBalance :: number
  w_ocIncome :: number
  w_githubSponsors :: number
  w_corporateBacking :: number
  w_maintainerCount :: number
  w_activityPenalty :: number
  w_aiDisruption :: number

record Factor =
  name :: string
  impact :: number
  reason :: string

record ScoringResult =
  score :: number
  category :: SustainabilityCategory
  explanation :: "string list"
  factors :: "Factor list"

definition DEFAULT_WEIGHTS :: ScoringWeights where
  "DEFAULT_WEIGHTS =
    \<lparr>w_downloads = 10, w_dependents = 15, w_ocBalance = 20, w_ocIncome = 15,
     w_githubSponsors = 5, w_corporateBacking = 30, w_maintainerCount = 5,
     w_activityPenalty = 10, w_aiDisruption = 15\<rparr>"

record Thresholds =
  thr_critical :: number
  thr_needsSupport :: number
  thr_stable :: number
  thr_thriving :: number

definition CATEGORY_THRESHOLDS :: Thresholds where
  "CATEGORY_THRESHOLDS =
    \<lparr>thr_critical = 30, thr_needsSupport = 50, thr_stable = 75, thr_thriving = 90\<rparr>"

subsection \<open>Normalisation\<close>

text \<open>
  \<^verbatim>\<open>Math.log10\<close> of a finite number is a finite number, \<^verbatim>\<open>-Infinity\<close> (at 0) or
  \<^verbatim>\<open>NaN\<close> (below 0). The operations below are the ones the source applies to such a
  value: division and multiplication by a positive constant, \<^verbatim>\<open>Math.min\<close> against a
  finite number, addition, and the comparison \<^verbatim>\<open>>\<close> (false on \<^verbatim>\<open>NaN\<close>).
\<close>

datatype xnumber = Num number | NegInfinity | NaN

definition Math_log10 :: "number \<Rightarrow> xnumber" where
  "Math_log10 x = (if x < 0 then NaN else if x = 0 then NegInfinity else Num (log 10 x))"

fun xdivide :: "xnumber \<Rightarrow> number \<Rightarrow> xnumber" where
  "xdivide (Num r) c = Num (r / c)"
| "xdivide NegInfinity c = NegInfinity"
| "xdivide NaN c = NaN"

fun xtimes :: "xnumber \<Rightarrow> number \<Rightarrow> xnumber" where
  "xtimes (Num r) c = Num (r * c)"
| "xtimes NegInfinity c = NegInfinity"
| "xtimes NaN c = NaN"

fun Math_min :: "number \<Rightarrow> xnumber \<Rightarrow> xnumber" where
  "Math_min m (Num r) = Num (min m r)"
| "Math_min m NegInfinity = NegInfinity"
| "Math_min m NaN = NaN"

fun xplus :: "xnumber \<Rightarrow> xnumber \<Rightarrow> xnumber" where
  "xplus (Num a) (Num b) = Num (a + b)"
| "xplus (Num a) NegInfinity = NegInfinity"
| "xplus (Num a) NaN = NaN"
| "xplus NegInfinity (Num b) = NegInfinity"
| "xplus NegInfinity NegInfinity = NegInfinity"
| "xplus NegInfinity NaN = NaN"
| "xplus NaN y = NaN"

fun xgreater :: "xnumber \<Rightarrow> number \<Rightarrow> bool" where
  "xgreater (Num r) c = (r > c)"
| "xgreater _ c = False"

definition normalizeDownloads :: "number option \<Rightarrow> xnumber" where
  "normalizeDownloads downloads =
     (if \<not> truthy_number downloads then Num 0
      else Math_min 1 (xdivide (Math_log10 (the downloads + 1)) 9))"

definition normalizeDependents :: "number option \<Rightarrow> xnumber" where
  "normalizeDependents dependents =
     (if \<not> truthy_number dependents then Num 0
      else Math_min 1 (xdivide (Math_log10 (the dependents + 1)) 4))"

definition normalizeBalance :: "number option \<Rightarrow> number" where
  "normalizeBalance balance =
     (if \<not> truthy_number balance then 0 else min 1 (the balance / 100000))"

definition normalizeIncome :: "number option \<Rightarrow> number" where
  "normalizeIncome income =
     (if \<not> truthy_number income then 0 else min 1 (the income / 100000))"

subsection \<open>calculateScore\<close>

text \<open>
  The source turns numbers into text with \<^verbatim>\<open>toLocaleString()\<close> (which depends on the
  host's locale) and with template-literal interpolation. Both are built-ins of the
  language; they are parameters of the model.
\<close>

record NumberFormat =
  toLocaleString :: "number \<Rightarrow> string"
  toString :: "number \<Rightarrow> string"

text \<open>\<^verbatim>\<open>x ?? 0\<close> on a nullable number.\<close>

definition nullish_zero :: "number option \<Rightarrow> number" where
  "nullish_zero n = (case n of None \<Rightarrow> 0 | Some v \<Rightarrow> v)"

definition statusScores :: "SustainabilityCategory \<Rightarrow> number" where
  "statusScores c =
     (case c of Critical \<Rightarrow> 15 | NeedsSupport \<Rightarrow> 40 | Stable \<Rightarrow> 65
              | Thriving \<Rightarrow> 85 | Corporate \<Rightarrow> 95)"

text \<open>The two variables that the body of \<^verbatim>\<open>calculateScore\<close> updates.\<close>

record Acc =
  cur_score :: number
  cur_factors :: "Factor list"

definition push :: "Factor \<Rightarrow> Acc \<Rightarrow> Acc" where
  "push f st = st\<lparr>cur_factors := cur_factors st @ [f]\<rparr>"

definition add_score :: "number \<Rightarrow> Acc \<Rightarrow> Acc" where
  "add_score d st = st\<lparr>cur_score := cur_score st + d\<rparr>"

text \<open>One definition for each commented block of the weighted path, in source order.\<close>

definition factorDownloads ::
  "NumberFormat \<Rightarrow> ScoringInputs \<Rightarrow> ScoringWeights \<Rightarrow> xnumber \<Rightarrow> Acc \<Rightarrow> Acc" where
  "factorDownloads fmt inputs weights downloadsFactor st =
     (case downloadsFactor of
        Num d \<Rightarrow>
          if d > 0 then
            push \<lparr>name = ''Weekly Downloads'',
                  impact = - d * w_downloads weights,
                  reason = toLocaleString fmt (nullish_zero (weeklyDownloads inputs))
                             @ '' weekly downloads''\<rparr> st
          else st
      | _ \<Rightarrow> st)"

definition factorDependents ::
  "NumberFormat \<Rightarrow> ScoringInputs \<Rightarrow> ScoringWeights \<Rightarrow> xnumber \<Rightarrow> Acc \<Rightarrow> Acc" where
  "factorDependents fmt inputs weights dependentsFactor st =
     (case dependentsFactor of
        Num d \<Rightarrow>
          if d > 0 then
            push \<lparr>name = ''Dependent Packages'',
                  impact = - d * w_dependents weights,
                  reason = toLocaleString fmt (nullish_zero (dependentCount inputs))
                             @ '' packages depend on this''\<rparr> st
          else st
      | _ \<Rightarrow> st)"

definition factorBalance :: "NumberFormat \<Rightarrow> ScoringInputs \<Rightarrow> ScoringWeights \<Rightarrow> Acc \<Rightarrow> Acc" where
  "factorBalance fmt inputs weights st =
     (let balanceFactor = normalizeBalance (ocBalance inputs) in
      if balanceFactor > 0 then
        add_score (balanceFactor * w_ocBalance weights)
          (push \<lparr>name = ''OC Balance'',
                 impact = balanceFactor * w_ocBalance weights,
                 reason = ''$'' @ toLocaleString fmt (nullish_zero (ocBalance inputs))
                            @ '' in OpenCollective''\<rparr> st)
      else st)"

definition factorIncome :: "NumberFormat \<Rightarrow> ScoringInputs \<Rightarrow> ScoringWeights \<Rightarrow> Acc \<Rightarrow> Acc" where
  "factorIncome fmt inputs weights st =
     (let incomeFactor = normalizeIncome (ocYearlyIncome inputs) in
      if incomeFactor > 0 then
        add_score (incomeFactor * w_ocIncome weights)
          (push \<lparr>name = ''OC Income'',
                 impact = incomeFactor * w_ocIncome weights,
                 reason = ''$'' @ toLocaleString fmt (nullish_zero (ocYearlyIncome inputs))
                            @ ''/year from OpenCollective''\<rparr> st)
      else st)"

definition factorSponsors :: "ScoringInputs \<Rightarrow> ScoringWeights \<Rightarrow> Acc \<Rightarrow> Acc" where
  "factorSponsors inputs weights st =
     (if truthy_bool (githubSponsors inputs) then
        add_score (w_githubSponsors weights)
          (push \<lparr>name = ''GitHub Sponsors'',
                 impact = w_githubSponsors weights,
                 reason = ''Has GitHub Sponsors enabled''\<rparr> st)
      else st)"

definition factorMaintainers ::
  "NumberFormat \<Rightarrow> ScoringInputs \<Rightarrow> ScoringWeights \<Rightarrow> Acc \<Rightarrow> Acc" where
  "factorMaintainers fmt inputs weights st =
     (if truthy_number (maintainerCount inputs) \<and> the (maintainerCount inputs) > 1 then
        (let maintainerBonus =
               min 1 ((the (maintainerCount inputs) - 1) / 4) * w_maintainerCount weights
         in add_score maintainerBonus
              (push \<lparr>name = ''Maintainer Count'',
                     impact = maintainerBonus,
                     reason = toString fmt (the (maintainerCount inputs))
                                @ '' maintainers (lower bus factor)''\<rparr> st))
      else if maintainerCount inputs = Some 1 then
        add_score (- (w_maintainerCount weights / 2))
          (push \<lparr>name = ''Solo Maintainer'',
                 impact = - w_maintainerCount weights / 2,
                 reason = ''Single maintainer (bus factor risk)''\<rparr> st)
      else st)"

definition factorActivity ::
  "NumberFormat \<Rightarrow> ScoringInputs \<Rightarrow> ScoringWeights \<Rightarrow> Acc \<Rightarrow> Acc" where
  "factorActivity fmt inputs weights st =
     (if truthy_number (daysSinceLastPublish inputs) \<and> the (daysSinceLastPublish inputs) > 365
      then
        (let inactivityPenalty =
               min 1 ((the (daysSinceLastPublish inputs) - 365) / 730)
                 * w_activityPenalty weights
         in add_score (- inactivityPenalty)
              (push \<lparr>name = ''Inactivity'',
                     impact = - inactivityPenalty,
                     reason = ''No releases in ''
                                @ toString fmt
                                    (of_int \<lfloor>the (daysSinceLastPublish inputs) / 365\<rfloor>)
                                @ '' years''\<rparr> st))
      else st)"

definition factorAiDisruption :: "ScoringInputs \<Rightarrow> ScoringWeights \<Rightarrow> Acc \<Rightarrow> Acc" where
  "factorAiDisruption inputs weights st =
     (if truthy_bool (aiDisruptionFlag inputs) then
        add_score (- w_aiDisruption weights)
          (push \<lparr>name = ''AI Disruption'',
                 impact = - w_aiDisruption weights,
                 reason = ''Business model at risk from AI tools''\<rparr> st)
      else st)"

definition ecosystemImportance :: "xnumber \<Rightarrow> xnumber \<Rightarrow> xnumber" where
  "ecosystemImportance downloadsFactor dependentsFactor =
     xplus (xtimes downloadsFactor (6 / 10)) (xtimes dependentsFactor (4 / 10))"

definition factorImportance :: "xnumber \<Rightarrow> xnumber \<Rightarrow> Acc \<Rightarrow> Acc" where
  "factorImportance downloadsFactor dependentsFactor st =
     (case ecosystemImportance downloadsFactor dependentsFactor of
        Num e \<Rightarrow>
          if e > 3 / 10 \<and> cur_score st < 60 then
            (let importancePenalty = e * 15 in
             push \<lparr>name = ''High Impact, Low Funding'',
                   impact = - importancePenalty,
                   reason = ''Critical infrastructure without adequate funding''\<rparr>
               (add_score (- importancePenalty) st))
          else st
      | _ \<Rightarrow> st)"

text \<open>The chain of threshold tests that assigns the category.\<close>

definition determineCategory :: "number \<Rightarrow> SustainabilityCategory" where
  "determineCategory s =
     (if s \<le> thr_critical CATEGORY_THRESHOLDS then Critical
      else if s \<le> thr_needsSupport CATEGORY_THRESHOLDS then NeedsSupport
      else if s \<le> thr_stable CATEGORY_THRESHOLDS then Stable
      else if s \<le> thr_thriving CATEGORY_THRESHOLDS then Thriving
      else Corporate)"

text \<open>
  \<^verbatim>\<open>Array.prototype.sort\<close> with a comparator is a stable sort: an element moves behind
  another only if the comparator puts it strictly after. It is modelled as the insertion
  sort with that property; the result of a stable sort does not depend on the algorithm.
\<close>

fun insert_by :: "('a \<Rightarrow> 'a \<Rightarrow> number) \<Rightarrow> 'a \<Rightarrow> 'a list \<Rightarrow> 'a list" where
  "insert_by cmp x [] = [x]"
| "insert_by cmp x (y # ys) =
     (if cmp x y \<le> 0 then x # y # ys else y # insert_by cmp x ys)"

definition Array_sort :: "('a \<Rightarrow> 'a \<Rightarrow> number) \<Rightarrow> 'a list \<Rightarrow> 'a list" where
  "Array_sort cmp xs = foldr (insert_by cmp) xs []"

definition byImpact :: "Factor \<Rightarrow> Factor \<Rightarrow> number" where
  "byImpact a b = \<bar>impact b\<bar> - \<bar>impact a\<bar>"

text \<open>The weighted path: the accumulation from the neutral base, in source order.\<close>

definition accumulate :: "NumberFormat \<Rightarrow> ScoringInputs \<Rightarrow> ScoringWeights \<Rightarrow> Acc" where
  "accumulate fmt inputs weights =
     (let st = \<lparr>cur_score = 50, cur_factors = []\<rparr>;
          downloadsFactor = normalizeDownloads (weeklyDownloads inputs);
          st = factorDownloads fmt inputs weights downloadsFactor st;
          dependentsFactor = normalizeDependents (dependentCount inputs);
          st = factorDependents fmt inputs weights dependentsFactor st;
          st = factorBalance fmt inputs weights st;
          st = factorIncome fmt inputs weights st;
          st = factorSponsors inputs weights st;
          st = factorMaintainers fmt inputs weights st;
          st = factorActivity fmt inputs weights st;
          st = factorAiDisruption inputs weights st
      in factorImportance downloadsFactor dependentsFactor st)"

definition calculateScore ::
  "NumberFormat \<Rightarrow> ScoringInputs \<Rightarrow> ScoringWeights \<Rightarrow> ScoringResult" where
  "calculateScore fmt inputs weights =
     (case maintainerStatus inputs of
        Some status \<Rightarrow>
          \<lparr>score = statusScores status,
           category = status,
           explanation = [''Score based on maintainer self-reported status''],
           factors = [\<lparr>name = ''Maintainer Status'', impact = 0,
                       reason = ''Maintainer marked as '' @ [CHR 0x22]
                                  @ categoryString status @ [CHR 0x22]\<rparr>]\<rparr>
      | None \<Rightarrow>
          if truthy_string (corporateBacking inputs) then
            \<lparr>score = 95,
             category = Corporate,
             explanation = [''Backed by '' @ the (corporateBacking inputs)
                              @ '' - does not need community funding''],
             factors = [\<lparr>name = ''Corporate Backing'',
                         impact = w_corporateBacking weights,
                         reason = ''Maintained by '' @ the (corporateBacking inputs)\<rparr>]\<rparr>
          else
            (let st = accumulate fmt inputs weights;
                 score = max 0 (min 100 (Math_round (cur_score st)));
                 category = determineCategory score;
                 sortedFactors = Array_sort byImpact (cur_factors st);
                 explanation = map reason (take 3 sortedFactors)
             in \<lparr>score = score, category = category, explanation = explanation,
                  factors = cur_factors st\<rparr>))"

subsection \<open>calculateAllocation\<close>

record AllocationInput =
  in_packageName :: string
  in_score :: number
  in_category :: SustainabilityCategory

record AllocationOutput =
  packageName :: string
  percentage :: number
  suggestedAmount :: number

text \<open>
  The share \<^verbatim>\<open>weight / totalWeight\<close>, its products with the budget and the division by 100
  are exact here. In the program each of them is rounded to binary64: with scores 3 and 37
  and a budget of 100 the first share of 6062.5 cents is 6062.499999999999 there, and the
  program returns 60.62 where exact arithmetic gives 60.63.
\<close>

definition packageWeight :: "AllocationInput \<Rightarrow> number" where
  "packageWeight pkg =
     (if in_category pkg = Corporate then 0
      else if in_category pkg = Thriving then 1 / 10
      else max 0 (100 - in_score pkg))"

definition totalWeight :: "AllocationInput list \<Rightarrow> number" where
  "totalWeight packages = foldl (\<lambda>sum w. sum + w) 0 (map packageWeight packages)"

definition calculateAllocation :: "AllocationInput list \<Rightarrow> number \<Rightarrow> AllocationOutput list" where
  "calculateAllocation packages totalBudget =
     (let weights = map packageWeight packages;
          total = totalWeight packages
      in if total = 0 then
           map (\<lambda>pkg. \<lparr>packageName = in_packageName pkg, percentage = 0,
                        suggestedAmount = 0\<rparr>) packages
         else
           map (\<lambda>i. let pkg = packages ! i;
                       weight = (if i < length weights then weights ! i else 0);
                       percentage = weight / total * 100
                   in \<lparr>packageName = in_packageName pkg,
                       percentage = Math_round (percentage * 10) / 10,
                       suggestedAmount = Math_round (weight / total * totalBudget * 100) / 100\<rparr>)
               [0..<length packages])"

section \<open>Auxiliary definitions\<close>

text \<open>The state of the weighted path when it reaches the importance block.\<close>

definition beforeImportance :: "NumberFormat \<Rightarrow> ScoringInputs \<Rightarrow> ScoringWeights \<Rightarrow> Acc" where
  "beforeImportance fmt inputs weights =
     factorAiDisruption inputs weights
       (factorActivity fmt inputs weights
         (factorMaintainers fmt inputs weights
           (factorSponsors inputs weights
             (factorIncome fmt inputs weights
               (factorBalance fmt inputs weights
                 (factorDependents fmt inputs weights
                    (normalizeDependents (dependentCount inputs))
                   (factorDownloads fmt inputs weights
                      (normalizeDownloads (weeklyDownloads inputs))
                      \<lparr>cur_score = 50, cur_factors = []\<rparr>)))))))"

text \<open>The names of the factors, in the order in which the source evaluates their blocks
  (the two maintainer factors exclude each other).\<close>

definition evaluation_order :: "string list" where
  "evaluation_order =
    [''Weekly Downloads'', ''Dependent Packages'', ''OC Balance'', ''OC Income'',
     ''GitHub Sponsors'', ''Maintainer Count'', ''Solo Maintainer'', ''Inactivity'',
     ''AI Disruption'', ''High Impact, Low Funding'']"

section \<open>Inputs used in the concrete checks\<close>

definition fmt0 :: NumberFormat where
  "fmt0 = \<lparr>toLocaleString = (\<lambda>x. ''n''), toString = (\<lambda>x. ''n'')\<rparr>"

definition no_inputs :: ScoringInputs where
  "no_inputs =
    \<lparr>weeklyDownloads = None, dependentCount = None, ocBalance = None,
     ocYearlyIncome = None, githubSponsors = None, corporateBacking = None,
     maintainerCount = None, daysSinceLastPublish = None, aiDisruptionFlag = None,
     maintainerStatus = None\<rparr>"

definition busy_inputs :: ScoringInputs where
  "busy_inputs =
    \<lparr>weeklyDownloads = Some 1000000, dependentCount = Some 5000, ocBalance = Some 200000,
     ocYearlyIncome = Some 50000, githubSponsors = Some True, corporateBacking = Some ''Meta'',
     maintainerCount = Some 1, daysSinceLastPublish = Some 1000, aiDisruptionFlag = Some True,
     maintainerStatus = Some Critical\<rparr>"

definition mixed_inputs :: ScoringInputs where
  "mixed_inputs =
    \<lparr>weeklyDownloads = None, dependentCount = None, ocBalance = Some 10000,
     ocYearlyIncome = None, githubSponsors = Some True, corporateBacking = None,
     maintainerCount = Some 1, daysSinceLastPublish = None, aiDisruptionFlag = Some True,
     maintainerStatus = None\<rparr>"

definition pkgs_two :: "AllocationInput list" where
  "pkgs_two =
    [\<lparr>in_packageName = ''a'', in_score = 0, in_category = Critical\<rparr>,
     \<lparr>in_packageName = ''b'', in_score = 50, in_category = NeedsSupport\<rparr>]"

definition pkgs_one :: "AllocationInput list" where
  "pkgs_one = [\<lparr>in_packageName = ''pkg1'', in_score = 30, in_category = Critical\<rparr>]"

definition pkgs_corporate :: "AllocationInput list" where
  "pkgs_corporate =
    [\<lparr>in_packageName = ''corp1'', in_score = 95, in_category = Corporate\<rparr>,
     \<lparr>in_packageName = ''corp2'', in_score = 95, in_category = Corporate\<rparr>]"

definition pkg_both :: PackageWithFunding where
  "pkg_both =
    \<lparr>ocSlug = Some ''dual-funding'', pkg_ocBalance = Some 10000, pkg_ocYearlyIncome = None,
     ocBackersCount = None, ocGoalAmount = None, ocGoalProgress = None, ocTopSponsors = None,
     ghHasSponsorsListing = Some True, ghSponsorsCount = Some 200,
     ghTopSponsors = Some [\<lparr>sponsor_name = ''Sponsor'', imageUrl = None,
                             sponsor_profileUrl = ''https://profile.url'',
                             avatarUrl = Some ''https://avatar.url''\<rparr>],
     repositoryOwner = Some ''some-owner''\<rparr>"

section \<open>Range formatter\<close>

lemma in_range_exists: "0 < a \<Longrightarrow> \<exists>r \<in> set ranges. in_range a r"
  unfolding ranges_def in_range_def by (simp; linarith)

lemma first_range_find:
  "first_range a rs = (case find (in_range a) rs of None \<Rightarrow> ''>$1M'' | Some r \<Rightarrow> range_label r)"
  by (induction rs) auto

lemma find_in_ranges:
  "r \<in> set ranges \<Longrightarrow> in_range a r \<Longrightarrow> find (in_range a) ranges = Some r"
  unfolding ranges_def in_range_def by (elim disjE | simp)+

lemma formatAmountRange_examples:
  "formatAmountRange (Some 99) = Some ''<$100''
     \<and> formatAmountRange (Some 100) = Some ''$100-500''
     \<and> formatAmountRange (Some 1000000) = Some ''>$1M''
     \<and> formatAmountRange (Some 0) = None
     \<and> formatAmountRange (Some (-5)) = None"
  by (simp add: formatAmountRange_def ranges_def in_range_def)

text \<open>
  C7. \<open>formatAmountRange\<close> returns none for an absent amount and for an amount that is
  zero or negative. For a positive amount exactly one range of the table contains it, a range
  being closed at its lower edge and open at its upper edge, and the result is the label of
  that range; so 99 is in \<open><$100\<close>, 100 in \<open>$100-500\<close> and 1000000 in \<open>>$1M\<close>.
\<close>

theorem formatAmountRange_buckets:
  "formatAmountRange None = None
   \<and> (a \<le> 0 \<longrightarrow> formatAmountRange (Some a) = None)
   \<and> (0 < a \<longrightarrow>
        (\<exists>!r. r \<in> set ranges \<and> range_min r \<le> a \<and> below a (range_max r)) \<and>
        (\<forall>r \<in> set ranges. range_min r \<le> a \<and> below a (range_max r) \<longrightarrow>
            formatAmountRange (Some a) = Some (range_label r)))
   \<and> formatAmountRange (Some 99) = Some ''<$100''
   \<and> formatAmountRange (Some 100) = Some ''$100-500''
   \<and> formatAmountRange (Some 1000000) = Some ''>$1M''"
proof -
  have none: "formatAmountRange None = None"
    by (simp add: formatAmountRange_def)
  have nonpos: "a \<le> 0 \<longrightarrow> formatAmountRange (Some a) = None"
    by (simp add: formatAmountRange_def)
  have pos: "(\<exists>!r. r \<in> set ranges \<and> range_min r \<le> a \<and> below a (range_max r)) \<and>
        (\<forall>r \<in> set ranges. range_min r \<le> a \<and> below a (range_max r) \<longrightarrow>
            formatAmountRange (Some a) = Some (range_label r))" if "0 < a"
  proof
    from in_range_exists [OF that] obtain r0 where r0: "r0 \<in> set ranges" "in_range a r0"
      by blast
    show "\<exists>!r. r \<in> set ranges \<and> range_min r \<le> a \<and> below a (range_max r)"
    proof (rule ex1I [of _ r0])
      from r0 show "r0 \<in> set ranges \<and> range_min r0 \<le> a \<and> below a (range_max r0)"
        by (simp add: in_range_def)
    next
      fix r assume "r \<in> set ranges \<and> range_min r \<le> a \<and> below a (range_max r)"
      then have "find (in_range a) ranges = Some r"
        by (simp add: find_in_ranges in_range_def)
      moreover from r0 have "find (in_range a) ranges = Some r0"
        by (rule find_in_ranges)
      ultimately show "r = r0" by simp
    qed
  next
    show "\<forall>r \<in> set ranges. range_min r \<le> a \<and> below a (range_max r) \<longrightarrow>
            formatAmountRange (Some a) = Some (range_label r)"
    proof (intro ballI impI)
      fix r assume r: "r \<in> set ranges" and "range_min r \<le> a \<and> below a (range_max r)"
      then have "find (in_range a) ranges = Some r"
        by (simp add: find_in_ranges in_range_def)
      then have "first_range a ranges = range_label r"
        by (simp add: first_range_find)
      with that show "formatAmountRange (Some a) = Some (range_label r)"
        by (simp add: formatAmountRange_def)
    qed
  qed
  from none nonpos pos formatAmountRange_examples show ?thesis by blast
qed

theorem formatAmountRange_buckets_witness:
  "(0::real) < 250 \<and> formatAmountRange (Some 250) = Some ''$100-500''"
proof -
  let ?r = "\<lparr>range_min = 100, range_max = Finite 500, range_label = ''$100-500''\<rparr>"
  have r: "?r \<in> set ranges"
    by (simp add: ranges_def)
  have b: "range_min ?r \<le> 250 \<and> below 250 (range_max ?r)" by simp
  from formatAmountRange_buckets [of 250] have
    "\<forall>r \<in> set ranges. range_min r \<le> 250 \<and> below 250 (range_max r) \<longrightarrow>
            formatAmountRange (Some 250) = Some (range_label r)" by simp
  with r b have "formatAmountRange (Some 250) = Some (range_label ?r)" by blast
  then show ?thesis by simp
qed

section \<open>Funding summary normalizer\<close>

text \<open>
  C8. \<open>buildFundingSummary\<close> selects by platform priority. A slug is present when it is
  neither null nor the empty string, and likewise the owner handle. If the OpenCollective
  slug is present the result is an OpenCollective summary, and it is the same whatever the
  GitHub fields hold. Otherwise the result is a GitHub summary exactly when the listing flag
  is true and the repository owner is present, and it is none in every other case (a
  listing flag without an owner included).
\<close>

theorem buildFundingSummary_priority:
  "(truthy_string (ocSlug pkg) \<longrightarrow>
      (\<exists>s. buildFundingSummary pkg = Some s \<and> platform s = OpenCollective)
      \<and> buildFundingSummary
            (pkg\<lparr>ghHasSponsorsListing := listing, ghSponsorsCount := cnt,
                 ghTopSponsors := sponsors, repositoryOwner := owner\<rparr>)
          = buildFundingSummary pkg)
   \<and> (\<not> truthy_string (ocSlug pkg) \<longrightarrow>
        ((\<exists>s. buildFundingSummary pkg = Some s \<and> platform s = GitHub)
           \<longleftrightarrow> ghHasSponsorsListing pkg = Some True \<and> truthy_string (repositoryOwner pkg))
        \<and> (\<not> (ghHasSponsorsListing pkg = Some True \<and> truthy_string (repositoryOwner pkg))
              \<longrightarrow> buildFundingSummary pkg = None))"
proof -
  have flag: "truthy_bool (ghHasSponsorsListing pkg) \<longleftrightarrow> ghHasSponsorsListing pkg = Some True"
    by (simp add: truthy_bool_def split: option.splits)
  show ?thesis
    by (simp add: buildFundingSummary_def flag Let_def)
qed

theorem buildFundingSummary_priority_witness:
  "truthy_string (ocSlug pkg_both)
   \<and> map_option platform (buildFundingSummary pkg_both) = Some OpenCollective
   \<and> \<not> truthy_string (ocSlug (pkg_both\<lparr>ocSlug := None\<rparr>))
   \<and> map_option platform (buildFundingSummary (pkg_both\<lparr>ocSlug := None\<rparr>)) = Some GitHub
   \<and> \<not> truthy_string (ocSlug (pkg_both\<lparr>ocSlug := None, repositoryOwner := None\<rparr>))
   \<and> buildFundingSummary (pkg_both\<lparr>ocSlug := None, repositoryOwner := None\<rparr>) = None"
proof -
  have t: "truthy_string (ocSlug pkg_both)"
    by (simp add: pkg_both_def truthy_string_def)
  have n1: "\<not> truthy_string (ocSlug (pkg_both\<lparr>ocSlug := None\<rparr>))"
    and n2: "\<not> truthy_string (ocSlug (pkg_both\<lparr>ocSlug := None, repositoryOwner := None\<rparr>))"
    by (simp_all add: truthy_string_def)
  have g: "ghHasSponsorsListing (pkg_both\<lparr>ocSlug := None\<rparr>) = Some True
           \<and> truthy_string (repositoryOwner (pkg_both\<lparr>ocSlug := None\<rparr>))"
    by (simp add: pkg_both_def truthy_string_def)
  have h: "\<not> (ghHasSponsorsListing (pkg_both\<lparr>ocSlug := None, repositoryOwner := None\<rparr>) = Some True
           \<and> truthy_string (repositoryOwner (pkg_both\<lparr>ocSlug := None, repositoryOwner := None\<rparr>)))"
    by (simp add: truthy_string_def)
  from buildFundingSummary_priority [of pkg_both] t
  have 1: "map_option platform (buildFundingSummary pkg_both) = Some OpenCollective"
    by auto
  from buildFundingSummary_priority [of "pkg_both\<lparr>ocSlug := None\<rparr>"] n1 g
  have 2: "map_option platform (buildFundingSummary (pkg_both\<lparr>ocSlug := None\<rparr>)) = Some GitHub"
    by auto
  from buildFundingSummary_priority [of "pkg_both\<lparr>ocSlug := None, repositoryOwner := None\<rparr>"] n2 h
  have 3: "buildFundingSummary (pkg_both\<lparr>ocSlug := None, repositoryOwner := None\<rparr>) = None"
    by blast
  from t n1 n2 1 2 3 show ?thesis by blast
qed

section \<open>Score calculator\<close>

lemma statusScores_Ints: "statusScores c \<in> \<int>"
  by (cases c) (simp_all add: statusScores_def)

lemma statusScores_bounds: "0 \<le> statusScores c \<and> statusScores c \<le> 100"
  by (cases c) (simp_all add: statusScores_def)

lemma clamp_round_Ints: "max 0 (min 100 (Math_round x)) \<in> \<int>"
  by (simp add: Math_round_def max_def min_def)

text \<open>
  C1. For every input, every weight configuration and every number formatting, the score
  that \<open>calculateScore\<close> returns is an integer between 0 and 100, on the two override
  paths as on the weighted path.
\<close>

theorem calculateScore_range:
  "score (calculateScore fmt inputs weights) \<in> \<int>
   \<and> 0 \<le> score (calculateScore fmt inputs weights)
   \<and> score (calculateScore fmt inputs weights) \<le> 100"
proof (cases "maintainerStatus inputs")
  case (Some status)
  then have "score (calculateScore fmt inputs weights) = statusScores status"
    by (simp add: calculateScore_def)
  with statusScores_Ints [of status] statusScores_bounds [of status] show ?thesis
    by simp
next
  case None
  show ?thesis
  proof (cases "truthy_string (corporateBacking inputs)")
    case True
    with None have "score (calculateScore fmt inputs weights) = 95"
      by (simp add: calculateScore_def)
    then show ?thesis by simp
  next
    case False
    with None have
      "score (calculateScore fmt inputs weights)
         = max 0 (min 100 (Math_round (cur_score (accumulate fmt inputs weights))))"
      by (simp add: calculateScore_def Let_def)
    with clamp_round_Ints [of "cur_score (accumulate fmt inputs weights)"]
    show ?thesis by simp
  qed
qed

text \<open>
  C2. When \<open>maintainerStatus\<close> is present, the score is the entry of the fixed table for
  that status (critical 15, needs-support 40, stable 65, thriving 85, corporate 95) and the
  category is the status, whatever the other fields and the weights are.
\<close>

theorem calculateScore_maintainerStatus:
  assumes "maintainerStatus inputs = Some c"
  shows "score (calculateScore fmt inputs weights)
           = (case c of Critical \<Rightarrow> 15 | NeedsSupport \<Rightarrow> 40 | Stable \<Rightarrow> 65
                      | Thriving \<Rightarrow> 85 | Corporate \<Rightarrow> 95)
         \<and> category (calculateScore fmt inputs weights) = c"
  using assms by (simp add: calculateScore_def statusScores_def)

theorem calculateScore_maintainerStatus_witness:
  "maintainerStatus busy_inputs = Some Critical
   \<and> score (calculateScore fmt0 busy_inputs DEFAULT_WEIGHTS) = 15
   \<and> category (calculateScore fmt0 busy_inputs DEFAULT_WEIGHTS) = Critical"
  using calculateScore_maintainerStatus [of busy_inputs Critical fmt0 DEFAULT_WEIGHTS]
  by (simp add: busy_inputs_def)

text \<open>
  C3. When \<open>maintainerStatus\<close> is absent and \<open>corporateBacking\<close> is a non-empty name, the
  score is 95 and the category is corporate, whatever the other fields are, and the result
  has exactly one factor, whose impact is the weight \<open>corporateBacking\<close>.
\<close>

theorem calculateScore_corporateBacking:
  assumes "maintainerStatus inputs = None"
    and "corporateBacking inputs = Some company" and "company \<noteq> []"
  shows "score (calculateScore fmt inputs weights) = 95
         \<and> category (calculateScore fmt inputs weights) = Corporate
         \<and> (\<exists>f. factors (calculateScore fmt inputs weights) = [f]
                \<and> impact f = w_corporateBacking weights)"
  using assms by (simp add: calculateScore_def truthy_string_def)

theorem calculateScore_corporateBacking_witness:
  "maintainerStatus (busy_inputs\<lparr>maintainerStatus := None\<rparr>) = None
   \<and> corporateBacking (busy_inputs\<lparr>maintainerStatus := None\<rparr>) = Some ''Meta''
   \<and> score (calculateScore fmt0 (busy_inputs\<lparr>maintainerStatus := None\<rparr>) DEFAULT_WEIGHTS) = 95
   \<and> category (calculateScore fmt0 (busy_inputs\<lparr>maintainerStatus := None\<rparr>) DEFAULT_WEIGHTS)
       = Corporate
   \<and> (\<exists>f. factors (calculateScore fmt0 (busy_inputs\<lparr>maintainerStatus := None\<rparr>) DEFAULT_WEIGHTS)
             = [f] \<and> impact f = 30)"
  using calculateScore_corporateBacking
    [of "busy_inputs\<lparr>maintainerStatus := None\<rparr>" "''Meta''" fmt0 DEFAULT_WEIGHTS]
  by (simp add: busy_inputs_def DEFAULT_WEIGHTS_def)

text \<open>
  C10. The maintainer-status override agrees with the threshold banding: the fixed score
  of each category falls in that category's band, so the category of an override result is
  the one that the thresholds assign to its score.
\<close>

theorem override_consistent_with_thresholds:
  "determineCategory (statusScores c) = c
   \<and> determineCategory (score (calculateScore fmt (inputs\<lparr>maintainerStatus := Some c\<rparr>) weights))
       = category (calculateScore fmt (inputs\<lparr>maintainerStatus := Some c\<rparr>) weights)"
  by (cases c) (simp_all add: determineCategory_def statusScores_def CATEGORY_THRESHOLDS_def
      calculateScore_def)

subsection \<open>The balance\<close>

lemma accumulate_chain:
  "accumulate fmt inputs weights =
     factorImportance (normalizeDownloads (weeklyDownloads inputs))
       (normalizeDependents (dependentCount inputs))
       (beforeImportance fmt inputs weights)"
  by (simp add: accumulate_def beforeImportance_def Let_def)

lemma factorDownloads_score [simp]:
  "cur_score (factorDownloads fmt inputs weights d st) = cur_score st"
  by (simp add: factorDownloads_def push_def split: xnumber.splits)

lemma factorDependents_score [simp]:
  "cur_score (factorDependents fmt inputs weights d st) = cur_score st"
  by (simp add: factorDependents_def push_def split: xnumber.splits)

lemma factorBalance_score:
  "cur_score (factorBalance fmt inputs weights st)
     = cur_score st + max 0 (normalizeBalance (ocBalance inputs)) * w_ocBalance weights"
  by (simp add: factorBalance_def push_def add_score_def Let_def max_def)

lemma normalizeBalance_Some: "normalizeBalance (Some b) = min 1 (b / 100000)"
  by (simp add: normalizeBalance_def truthy_number_def)

text \<open>What the blocks after the balance add to the score does not depend on the score
  they start from, nor on the balance.\<close>

lemma factorIncome_score:
  "cur_score (factorIncome fmt (inputs\<lparr>ocBalance := b\<rparr>) weights st) - cur_score st
     = cur_score (factorIncome fmt (inputs\<lparr>ocBalance := b'\<rparr>) weights st') - cur_score st'"
  by (simp add: factorIncome_def push_def add_score_def Let_def)

lemma factorSponsors_score:
  "cur_score (factorSponsors (inputs\<lparr>ocBalance := b\<rparr>) weights st) - cur_score st
     = cur_score (factorSponsors (inputs\<lparr>ocBalance := b'\<rparr>) weights st') - cur_score st'"
  by (simp add: factorSponsors_def push_def add_score_def)

lemma factorMaintainers_score:
  "cur_score (factorMaintainers fmt (inputs\<lparr>ocBalance := b\<rparr>) weights st) - cur_score st
     = cur_score (factorMaintainers fmt (inputs\<lparr>ocBalance := b'\<rparr>) weights st') - cur_score st'"
  by (simp add: factorMaintainers_def push_def add_score_def Let_def)

lemma factorActivity_score:
  "cur_score (factorActivity fmt (inputs\<lparr>ocBalance := b\<rparr>) weights st) - cur_score st
     = cur_score (factorActivity fmt (inputs\<lparr>ocBalance := b'\<rparr>) weights st') - cur_score st'"
  by (simp add: factorActivity_def push_def add_score_def Let_def)

lemma factorAiDisruption_score:
  "cur_score (factorAiDisruption (inputs\<lparr>ocBalance := b\<rparr>) weights st) - cur_score st
     = cur_score (factorAiDisruption (inputs\<lparr>ocBalance := b'\<rparr>) weights st') - cur_score st'"
  by (simp add: factorAiDisruption_def push_def add_score_def)

lemma factorImportance_mono:
  "cur_score st \<le> cur_score st' \<Longrightarrow>
   cur_score (factorImportance d p st) \<le> cur_score (factorImportance d p st')"
  by (cases "ecosystemImportance d p")
     (auto simp: factorImportance_def push_def add_score_def Let_def)

lemma factorImportance_cong:
  "cur_score st = cur_score st' \<Longrightarrow>
   cur_score (factorImportance d p st) = cur_score (factorImportance d p st')"
  by (cases "ecosystemImportance d p")
     (auto simp: factorImportance_def push_def add_score_def Let_def)

lemma beforeImportance_balance:
  "cur_score (beforeImportance fmt (inputs\<lparr>ocBalance := Some b'\<rparr>) weights)
     - cur_score (beforeImportance fmt (inputs\<lparr>ocBalance := Some b\<rparr>) weights)
   = (max 0 (min 1 (b' / 100000)) - max 0 (min 1 (b / 100000))) * w_ocBalance weights"
proof -
  let ?i = "\<lambda>x. inputs\<lparr>ocBalance := Some x\<rparr>"
  let ?s0 = "\<lambda>x. factorDependents fmt (?i x) weights
                     (normalizeDependents (dependentCount (?i x)))
                     (factorDownloads fmt (?i x) weights
                        (normalizeDownloads (weeklyDownloads (?i x)))
                        \<lparr>cur_score = 50, cur_factors = []\<rparr>)"
  let ?s1 = "\<lambda>x. factorBalance fmt (?i x) weights (?s0 x)"
  let ?s2 = "\<lambda>x. factorIncome fmt (?i x) weights (?s1 x)"
  let ?s3 = "\<lambda>x. factorSponsors (?i x) weights (?s2 x)"
  let ?s4 = "\<lambda>x. factorMaintainers fmt (?i x) weights (?s3 x)"
  let ?s5 = "\<lambda>x. factorActivity fmt (?i x) weights (?s4 x)"
  let ?s6 = "\<lambda>x. factorAiDisruption (?i x) weights (?s5 x)"
  have 1: "cur_score (?s1 b') - cur_score (?s1 b)
             = (max 0 (min 1 (b' / 100000)) - max 0 (min 1 (b / 100000))) * w_ocBalance weights"
    by (simp add: factorBalance_score normalizeBalance_Some algebra_simps)
  have 2: "cur_score (?s2 b') - cur_score (?s2 b) = cur_score (?s1 b') - cur_score (?s1 b)"
    using factorIncome_score [where fmt = fmt and inputs = inputs and weights = weights
        and b = "Some b'" and st = "?s1 b'" and b' = "Some b" and st' = "?s1 b"]
    by linarith
  have 3: "cur_score (?s3 b') - cur_score (?s3 b) = cur_score (?s2 b') - cur_score (?s2 b)"
    using factorSponsors_score [where inputs = inputs and weights = weights
        and b = "Some b'" and st = "?s2 b'" and b' = "Some b" and st' = "?s2 b"]
    by linarith
  have 4: "cur_score (?s4 b') - cur_score (?s4 b) = cur_score (?s3 b') - cur_score (?s3 b)"
    using factorMaintainers_score [where fmt = fmt and inputs = inputs and weights = weights
        and b = "Some b'" and st = "?s3 b'" and b' = "Some b" and st' = "?s3 b"]
    by linarith
  have 5: "cur_score (?s5 b') - cur_score (?s5 b) = cur_score (?s4 b') - cur_score (?s4 b)"
    using factorActivity_score [where fmt = fmt and inputs = inputs and weights = weights
        and b = "Some b'" and st = "?s4 b'" and b' = "Some b" and st' = "?s4 b"]
    by linarith
  have 6: "cur_score (?s6 b') - cur_score (?s6 b) = cur_score (?s5 b') - cur_score (?s5 b)"
    using factorAiDisruption_score [where inputs = inputs and weights = weights
        and b = "Some b'" and st = "?s5 b'" and b' = "Some b" and st' = "?s5 b"]
    by linarith
  from 1 2 3 4 5 6 show ?thesis unfolding beforeImportance_def by linarith
qed

lemma accumulate_mono:
  assumes "0 \<le> w_ocBalance weights" and "b \<le> b'"
  shows "cur_score (accumulate fmt (inputs\<lparr>ocBalance := Some b\<rparr>) weights)
           \<le> cur_score (accumulate fmt (inputs\<lparr>ocBalance := Some b'\<rparr>) weights)"
proof -
  from assms(2) have "max 0 (min 1 (b / 100000)) \<le> max 0 (min 1 (b' / 100000))"
    by (simp add: max_def min_def)
  with assms(1) have
    "0 \<le> (max 0 (min 1 (b' / 100000)) - max 0 (min 1 (b / 100000))) * w_ocBalance weights"
    by simp
  with beforeImportance_balance [where fmt = fmt and inputs = inputs and weights = weights
      and b = b and b' = b']
  have "cur_score (beforeImportance fmt (inputs\<lparr>ocBalance := Some b\<rparr>) weights)
          \<le> cur_score (beforeImportance fmt (inputs\<lparr>ocBalance := Some b'\<rparr>) weights)"
    by linarith
  then have "cur_score (factorImportance (normalizeDownloads (weeklyDownloads inputs))
                      (normalizeDependents (dependentCount inputs))
                      (beforeImportance fmt (inputs\<lparr>ocBalance := Some b\<rparr>) weights))
          \<le> cur_score (factorImportance (normalizeDownloads (weeklyDownloads inputs))
                      (normalizeDependents (dependentCount inputs))
                      (beforeImportance fmt (inputs\<lparr>ocBalance := Some b'\<rparr>) weights))"
    by (rule factorImportance_mono)
  then show ?thesis
    by (simp add: accumulate_chain)
qed

lemma accumulate_cap:
  assumes "100000 \<le> b"
  shows "cur_score (accumulate fmt (inputs\<lparr>ocBalance := Some b\<rparr>) weights)
           = cur_score (accumulate fmt (inputs\<lparr>ocBalance := Some 100000\<rparr>) weights)"
proof -
  from assms have "max 0 (min 1 (b / 100000)) = max 0 (min 1 (100000 / 100000))"
    by (simp add: max_def min_def)
  with beforeImportance_balance [where fmt = fmt and inputs = inputs and weights = weights
      and b = 100000 and b' = b]
  have "cur_score (beforeImportance fmt (inputs\<lparr>ocBalance := Some b\<rparr>) weights)
          = cur_score (beforeImportance fmt (inputs\<lparr>ocBalance := Some 100000\<rparr>) weights)"
    by simp
  then have "cur_score (factorImportance (normalizeDownloads (weeklyDownloads inputs))
                      (normalizeDependents (dependentCount inputs))
                      (beforeImportance fmt (inputs\<lparr>ocBalance := Some b\<rparr>) weights))
          = cur_score (factorImportance (normalizeDownloads (weeklyDownloads inputs))
                      (normalizeDependents (dependentCount inputs))
                      (beforeImportance fmt (inputs\<lparr>ocBalance := Some 100000\<rparr>) weights))"
    by (rule factorImportance_cong)
  then show ?thesis
    by (simp add: accumulate_chain)
qed

lemma Math_round_mono: "x \<le> y \<Longrightarrow> Math_round x \<le> Math_round y"
  by (simp add: Math_round_def floor_mono)

lemma weighted_score:
  "maintainerStatus inputs = None \<Longrightarrow> \<not> truthy_string (corporateBacking inputs) \<Longrightarrow>
   score (calculateScore fmt inputs weights)
     = max 0 (min 100 (Math_round (cur_score (accumulate fmt inputs weights))))"
  by (simp add: calculateScore_def Let_def)

lemma override_score:
  "maintainerStatus inputs \<noteq> None \<or> truthy_string (corporateBacking inputs) \<Longrightarrow>
   score (calculateScore fmt (inputs\<lparr>ocBalance := b\<rparr>) weights)
     = score (calculateScore fmt (inputs\<lparr>ocBalance := b'\<rparr>) weights)"
  by (cases "maintainerStatus inputs") (auto simp: calculateScore_def)

text \<open>
  C5. With a non-negative weight \<open>ocBalance\<close> and every other input fixed, the score does
  not decrease when \<open>ocBalance\<close> increases, and from 100000 on it is constant: the score at
  100000 is the score at 200000. (The score is rounded, so the increase is not strict.)
\<close>

theorem calculateScore_ocBalance_monotone:
  assumes "0 \<le> w_ocBalance weights"
  shows "(b \<le> b' \<longrightarrow>
            score (calculateScore fmt (inputs\<lparr>ocBalance := Some b\<rparr>) weights)
              \<le> score (calculateScore fmt (inputs\<lparr>ocBalance := Some b'\<rparr>) weights))
         \<and> (100000 \<le> b \<longrightarrow>
            score (calculateScore fmt (inputs\<lparr>ocBalance := Some b\<rparr>) weights)
              = score (calculateScore fmt (inputs\<lparr>ocBalance := Some 100000\<rparr>) weights))
         \<and> score (calculateScore fmt (inputs\<lparr>ocBalance := Some 100000\<rparr>) weights)
              = score (calculateScore fmt (inputs\<lparr>ocBalance := Some 200000\<rparr>) weights)"
proof (cases "maintainerStatus inputs = None \<and> \<not> truthy_string (corporateBacking inputs)")
  case False
  then have "maintainerStatus inputs \<noteq> None \<or> truthy_string (corporateBacking inputs)"
    by auto
  from override_score [OF this] show ?thesis by (metis order_refl)
next
  case True
  have w: "score (calculateScore fmt (inputs\<lparr>ocBalance := Some x\<rparr>) weights)
     = max 0 (min 100 (Math_round
         (cur_score (accumulate fmt (inputs\<lparr>ocBalance := Some x\<rparr>) weights))))" for x
    using True by (intro weighted_score) simp_all
  have mono: "score (calculateScore fmt (inputs\<lparr>ocBalance := Some b\<rparr>) weights)
              \<le> score (calculateScore fmt (inputs\<lparr>ocBalance := Some b'\<rparr>) weights)"
    if "b \<le> b'"
    unfolding w using Math_round_mono [OF accumulate_mono [OF assms that, of fmt inputs]]
    by (simp add: max_def min_def)
  have cap: "score (calculateScore fmt (inputs\<lparr>ocBalance := Some x\<rparr>) weights)
              = score (calculateScore fmt (inputs\<lparr>ocBalance := Some 100000\<rparr>) weights)"
    if "100000 \<le> x" for x
    unfolding w using accumulate_cap [OF that, of fmt inputs weights] by simp
  from mono cap [of b] cap [of 200000] show ?thesis by simp
qed

lemma no_inputs_balance_score:
  "score (calculateScore fmt0 (no_inputs\<lparr>ocBalance := Some b\<rparr>) DEFAULT_WEIGHTS)
     = max 0 (min 100 (Math_round (50 + max 0 (min 1 (b / 100000)) * 20)))"
  by (simp add: calculateScore_def accumulate_def no_inputs_def Let_def truthy_string_def
      truthy_number_def truthy_bool_def normalizeDownloads_def normalizeDependents_def
      normalizeBalance_def normalizeIncome_def factorDownloads_def factorDependents_def
      factorBalance_def factorIncome_def factorSponsors_def factorMaintainers_def
      factorActivity_def factorAiDisruption_def factorImportance_def ecosystemImportance_def
      push_def add_score_def DEFAULT_WEIGHTS_def max_def min_def)

theorem calculateScore_ocBalance_monotone_witness:
  "0 \<le> w_ocBalance DEFAULT_WEIGHTS \<and> (50000 :: real) \<le> 100000
   \<and> score (calculateScore fmt0 (no_inputs\<lparr>ocBalance := Some 50000\<rparr>) DEFAULT_WEIGHTS) = 60
   \<and> score (calculateScore fmt0 (no_inputs\<lparr>ocBalance := Some 100000\<rparr>) DEFAULT_WEIGHTS) = 70
   \<and> score (calculateScore fmt0 (no_inputs\<lparr>ocBalance := Some 200000\<rparr>) DEFAULT_WEIGHTS) = 70
   \<and> score (calculateScore fmt0 (no_inputs\<lparr>ocBalance := Some 50000\<rparr>) DEFAULT_WEIGHTS)
        \<le> score (calculateScore fmt0 (no_inputs\<lparr>ocBalance := Some 100000\<rparr>) DEFAULT_WEIGHTS)"
proof -
  have w: "0 \<le> w_ocBalance DEFAULT_WEIGHTS" by (simp add: DEFAULT_WEIGHTS_def)
  have a: "score (calculateScore fmt0 (no_inputs\<lparr>ocBalance := Some 50000\<rparr>) DEFAULT_WEIGHTS) = 60"
    by (simp add: no_inputs_balance_score Math_round_def)
  have b: "score (calculateScore fmt0 (no_inputs\<lparr>ocBalance := Some 100000\<rparr>) DEFAULT_WEIGHTS) = 70"
    by (simp add: no_inputs_balance_score Math_round_def)
  have c: "score (calculateScore fmt0 (no_inputs\<lparr>ocBalance := Some 200000\<rparr>) DEFAULT_WEIGHTS) = 70"
    by (simp add: no_inputs_balance_score Math_round_def)
  from calculateScore_ocBalance_monotone [OF w, of 50000 100000 fmt0 no_inputs]
  have "score (calculateScore fmt0 (no_inputs\<lparr>ocBalance := Some 50000\<rparr>) DEFAULT_WEIGHTS)
        \<le> score (calculateScore fmt0 (no_inputs\<lparr>ocBalance := Some 100000\<rparr>) DEFAULT_WEIGHTS)"
    by simp
  with w a b c show ?thesis by simp
qed

subsection \<open>Factors and explanation\<close>

lemma insert_by_insort:
  "insert_by byImpact x ys = insort_key (\<lambda>f. - \<bar>impact f\<bar>) x ys"
  by (induction ys) (simp_all add: byImpact_def)

lemma Array_sort_sort_key:
  "Array_sort byImpact xs = sort_key (\<lambda>f. - \<bar>impact f\<bar>) xs"
proof -
  have "insert_by byImpact = insort_key (\<lambda>f. - \<bar>impact f\<bar>)"
    by (intro ext) (rule insert_by_insort)
  then show ?thesis by (simp add: Array_sort_def sort_key_def)
qed

lemma Array_sort_mset: "mset (Array_sort byImpact xs) = mset xs"
  by (simp add: Array_sort_sort_key)

lemma Array_sort_sorted:
  "sorted_wrt (\<lambda>a b. \<bar>impact a\<bar> \<ge> \<bar>impact b\<bar>) (Array_sort byImpact xs)"
proof -
  have "sorted (map (\<lambda>f. - \<bar>impact f\<bar>) (sort_key (\<lambda>f. - \<bar>impact f\<bar>) xs))"
    by (rule sorted_sort_key)
  then show ?thesis by (simp add: Array_sort_sort_key sorted_map)
qed

lemma Array_sort_stable:
  "filter (\<lambda>f. \<bar>impact f\<bar> = k) (Array_sort byImpact xs) = filter (\<lambda>f. \<bar>impact f\<bar> = k) xs"
proof -
  have "filter (\<lambda>f. - \<bar>impact f\<bar> = - k) (sort_key (\<lambda>f. - \<bar>impact f\<bar>) xs)
          = filter (\<lambda>f. - \<bar>impact f\<bar> = - k) xs"
    by (rule sort_key_stable)
  then show ?thesis by (simp add: Array_sort_sort_key)
qed

lemma Array_sort_length: "length (Array_sort byImpact xs) = length xs"
  by (simp add: Array_sort_sort_key)

text \<open>Each block appends at most one factor, of a known name.\<close>

lemma factorDownloads_factors:
  "\<exists>fs. cur_factors (factorDownloads fmt inputs weights d st) = cur_factors st @ fs
        \<and> subseq (map name fs) [''Weekly Downloads'']"
  by (cases d) (simp_all add: factorDownloads_def push_def)

lemma factorDependents_factors:
  "\<exists>fs. cur_factors (factorDependents fmt inputs weights d st) = cur_factors st @ fs
        \<and> subseq (map name fs) [''Dependent Packages'']"
  by (cases d) (simp_all add: factorDependents_def push_def)

lemma factorBalance_factors:
  "\<exists>fs. cur_factors (factorBalance fmt inputs weights st) = cur_factors st @ fs
        \<and> subseq (map name fs) [''OC Balance'']"
  by (simp add: factorBalance_def push_def add_score_def Let_def)

lemma factorIncome_factors:
  "\<exists>fs. cur_factors (factorIncome fmt inputs weights st) = cur_factors st @ fs
        \<and> subseq (map name fs) [''OC Income'']"
  by (simp add: factorIncome_def push_def add_score_def Let_def)

lemma factorSponsors_factors:
  "\<exists>fs. cur_factors (factorSponsors inputs weights st) = cur_factors st @ fs
        \<and> subseq (map name fs) [''GitHub Sponsors'']"
  by (simp add: factorSponsors_def push_def add_score_def)

lemma factorMaintainers_factors:
  "\<exists>fs. cur_factors (factorMaintainers fmt inputs weights st) = cur_factors st @ fs
        \<and> subseq (map name fs) [''Maintainer Count'', ''Solo Maintainer'']"
  by (simp add: factorMaintainers_def push_def add_score_def Let_def)

lemma factorActivity_factors:
  "\<exists>fs. cur_factors (factorActivity fmt inputs weights st) = cur_factors st @ fs
        \<and> subseq (map name fs) [''Inactivity'']"
  by (simp add: factorActivity_def push_def add_score_def Let_def)

lemma factorAiDisruption_factors:
  "\<exists>fs. cur_factors (factorAiDisruption inputs weights st) = cur_factors st @ fs
        \<and> subseq (map name fs) [''AI Disruption'']"
  by (simp add: factorAiDisruption_def push_def add_score_def)

lemma factorImportance_factors:
  "\<exists>fs. cur_factors (factorImportance d p st) = cur_factors st @ fs
        \<and> subseq (map name fs) [''High Impact, Low Funding'']"
  by (cases "ecosystemImportance d p")
     (simp_all add: factorImportance_def push_def add_score_def Let_def)

lemma subseq_step:
  "subseq (map name xs) order1 \<Longrightarrow> ys = xs @ fs \<Longrightarrow> subseq (map name fs) order2 \<Longrightarrow>
   subseq (map name ys) (order1 @ order2)"
  by (simp add: list_emb_append_mono)

lemma accumulate_factors_order:
  "subseq (map name (cur_factors (accumulate fmt inputs weights))) evaluation_order"
proof -
  let ?d = "normalizeDownloads (weeklyDownloads inputs)"
  let ?p = "normalizeDependents (dependentCount inputs)"
  let ?s0 = "\<lparr>cur_score = 50, cur_factors = []\<rparr>"
  let ?s1 = "factorDownloads fmt inputs weights ?d ?s0"
  let ?s2 = "factorDependents fmt inputs weights ?p ?s1"
  let ?s3 = "factorBalance fmt inputs weights ?s2"
  let ?s4 = "factorIncome fmt inputs weights ?s3"
  let ?s5 = "factorSponsors inputs weights ?s4"
  let ?s6 = "factorMaintainers fmt inputs weights ?s5"
  let ?s7 = "factorActivity fmt inputs weights ?s6"
  let ?s8 = "factorAiDisruption inputs weights ?s7"
  let ?s9 = "factorImportance ?d ?p ?s8"
  have 0: "subseq (map name (cur_factors ?s0)) []" by simp
  from factorDownloads_factors [of fmt inputs weights ?d ?s0] obtain f1 where
    "cur_factors ?s1 = cur_factors ?s0 @ f1" "subseq (map name f1) [''Weekly Downloads'']"
    by blast
  from subseq_step [OF 0 this]
  have 1: "subseq (map name (cur_factors ?s1)) ([] @ [''Weekly Downloads''])" .
  from factorDependents_factors [of fmt inputs weights ?p ?s1] obtain f2 where
    "cur_factors ?s2 = cur_factors ?s1 @ f2" "subseq (map name f2) [''Dependent Packages'']"
    by blast
  from subseq_step [OF 1 this]
  have 2: "subseq (map name (cur_factors ?s2))
             (([] @ [''Weekly Downloads'']) @ [''Dependent Packages''])" .
  from factorBalance_factors [of fmt inputs weights ?s2] obtain f3 where
    "cur_factors ?s3 = cur_factors ?s2 @ f3" "subseq (map name f3) [''OC Balance'']"
    by blast
  from subseq_step [OF 2 this]
  have 3: "subseq (map name (cur_factors ?s3))
             ((([] @ [''Weekly Downloads'']) @ [''Dependent Packages'']) @ [''OC Balance''])" .
  from factorIncome_factors [of fmt inputs weights ?s3] obtain f4 where
    "cur_factors ?s4 = cur_factors ?s3 @ f4" "subseq (map name f4) [''OC Income'']"
    by blast
  from subseq_step [OF 3 this]
  have 4: "subseq (map name (cur_factors ?s4))
             (((([] @ [''Weekly Downloads'']) @ [''Dependent Packages'']) @ [''OC Balance''])
                @ [''OC Income''])" .
  from factorSponsors_factors [of inputs weights ?s4] obtain f5 where
    "cur_factors ?s5 = cur_factors ?s4 @ f5" "subseq (map name f5) [''GitHub Sponsors'']"
    by blast
  from subseq_step [OF 4 this]
  have 5: "subseq (map name (cur_factors ?s5))
             ((((([] @ [''Weekly Downloads'']) @ [''Dependent Packages'']) @ [''OC Balance''])
                @ [''OC Income'']) @ [''GitHub Sponsors''])" .
  from factorMaintainers_factors [of fmt inputs weights ?s5] obtain f6 where
    "cur_factors ?s6 = cur_factors ?s5 @ f6"
    "subseq (map name f6) [''Maintainer Count'', ''Solo Maintainer'']"
    by blast
  from subseq_step [OF 5 this]
  have 6: "subseq (map name (cur_factors ?s6))
             (((((([] @ [''Weekly Downloads'']) @ [''Dependent Packages'']) @ [''OC Balance''])
                @ [''OC Income'']) @ [''GitHub Sponsors''])
                @ [''Maintainer Count'', ''Solo Maintainer''])" .
  from factorActivity_factors [of fmt inputs weights ?s6] obtain f7 where
    "cur_factors ?s7 = cur_factors ?s6 @ f7" "subseq (map name f7) [''Inactivity'']"
    by blast
  from subseq_step [OF 6 this]
  have 7: "subseq (map name (cur_factors ?s7))
             ((((((([] @ [''Weekly Downloads'']) @ [''Dependent Packages'']) @ [''OC Balance''])
                @ [''OC Income'']) @ [''GitHub Sponsors''])
                @ [''Maintainer Count'', ''Solo Maintainer'']) @ [''Inactivity''])" .
  from factorAiDisruption_factors [of inputs weights ?s7] obtain f8 where
    "cur_factors ?s8 = cur_factors ?s7 @ f8" "subseq (map name f8) [''AI Disruption'']"
    by blast
  from subseq_step [OF 7 this]
  have 8: "subseq (map name (cur_factors ?s8))
             (((((((([] @ [''Weekly Downloads'']) @ [''Dependent Packages'']) @ [''OC Balance''])
                @ [''OC Income'']) @ [''GitHub Sponsors''])
                @ [''Maintainer Count'', ''Solo Maintainer'']) @ [''Inactivity''])
                @ [''AI Disruption''])" .
  from factorImportance_factors [of ?d ?p ?s8] obtain f9 where
    "cur_factors ?s9 = cur_factors ?s8 @ f9"
    "subseq (map name f9) [''High Impact, Low Funding'']"
    by blast
  from subseq_step [OF 8 this]
  have 9: "subseq (map name (cur_factors ?s9))
             ((((((((([] @ [''Weekly Downloads'']) @ [''Dependent Packages'']) @ [''OC Balance''])
                @ [''OC Income'']) @ [''GitHub Sponsors''])
                @ [''Maintainer Count'', ''Solo Maintainer'']) @ [''Inactivity''])
                @ [''AI Disruption'']) @ [''High Impact, Low Funding''])" .
  have a: "accumulate fmt inputs weights = ?s9"
    by (simp add: accumulate_def Let_def)
  have e: "evaluation_order =
             ((((((((([] @ [''Weekly Downloads'']) @ [''Dependent Packages'']) @ [''OC Balance''])
                @ [''OC Income'']) @ [''GitHub Sponsors''])
                @ [''Maintainer Count'', ''Solo Maintainer'']) @ [''Inactivity''])
                @ [''AI Disruption'']) @ [''High Impact, Low Funding''])"
    by (simp add: evaluation_order_def)
  from 9 show ?thesis unfolding a e .
qed

lemma weighted_result:
  assumes "maintainerStatus inputs = None" and "\<not> truthy_string (corporateBacking inputs)"
  shows "factors (calculateScore fmt inputs weights) = cur_factors (accumulate fmt inputs weights)"
    and "explanation (calculateScore fmt inputs weights)
           = map reason (take 3 (Array_sort byImpact (cur_factors (accumulate fmt inputs weights))))"
  using assms by (simp_all add: calculateScore_def Let_def)

lemma explanation_length:
  "length (explanation (calculateScore fmt inputs weights)) \<le> 3
   \<and> length (explanation (calculateScore fmt inputs weights))
        \<le> length (factors (calculateScore fmt inputs weights))"
proof (cases "maintainerStatus inputs = None \<and> \<not> truthy_string (corporateBacking inputs)")
  case True
  then show ?thesis by (simp add: weighted_result Array_sort_length)
next
  case False
  then show ?thesis
    by (cases "maintainerStatus inputs") (auto simp: calculateScore_def)
qed

text \<open>
  C9. The explanation never has more than 3 entries, nor more entries than there are
  factors. On the weighted path it is the reasons of the first 3 factors of a copy of the
  factor list sorted by descending absolute impact, factors of equal absolute impact
  keeping their relative order; the \<open>factors\<close> field itself comes in evaluation order.
\<close>

theorem calculateScore_explanation:
  "length (explanation (calculateScore fmt inputs weights)) \<le> 3
   \<and> length (explanation (calculateScore fmt inputs weights))
        \<le> length (factors (calculateScore fmt inputs weights))
   \<and> (maintainerStatus inputs = None \<and> \<not> truthy_string (corporateBacking inputs) \<longrightarrow>
        (\<exists>sortedFactors.
            mset sortedFactors = mset (factors (calculateScore fmt inputs weights))
            \<and> sorted_wrt (\<lambda>a b. \<bar>impact a\<bar> \<ge> \<bar>impact b\<bar>) sortedFactors
            \<and> (\<forall>k. filter (\<lambda>f. \<bar>impact f\<bar> = k) sortedFactors
                      = filter (\<lambda>f. \<bar>impact f\<bar> = k) (factors (calculateScore fmt inputs weights)))
            \<and> explanation (calculateScore fmt inputs weights)
                 = map reason (take 3 sortedFactors))
        \<and> subseq (map name (factors (calculateScore fmt inputs weights))) evaluation_order)"
proof -
  have "\<exists>sortedFactors.
            mset sortedFactors = mset (factors (calculateScore fmt inputs weights))
            \<and> sorted_wrt (\<lambda>a b. \<bar>impact a\<bar> \<ge> \<bar>impact b\<bar>) sortedFactors
            \<and> (\<forall>k. filter (\<lambda>f. \<bar>impact f\<bar> = k) sortedFactors
                      = filter (\<lambda>f. \<bar>impact f\<bar> = k) (factors (calculateScore fmt inputs weights)))
            \<and> explanation (calculateScore fmt inputs weights)
                 = map reason (take 3 sortedFactors)"
    if w: "maintainerStatus inputs = None" "\<not> truthy_string (corporateBacking inputs)"
  proof (intro exI conjI allI)
    let ?fs = "cur_factors (accumulate fmt inputs weights)"
    show "mset (Array_sort byImpact ?fs) = mset (factors (calculateScore fmt inputs weights))"
      by (simp add: weighted_result [OF w] Array_sort_mset)
    show "sorted_wrt (\<lambda>a b. \<bar>impact a\<bar> \<ge> \<bar>impact b\<bar>) (Array_sort byImpact ?fs)"
      by (rule Array_sort_sorted)
    show "filter (\<lambda>f. \<bar>impact f\<bar> = k) (Array_sort byImpact ?fs)
            = filter (\<lambda>f. \<bar>impact f\<bar> = k) (factors (calculateScore fmt inputs weights))" for k
      by (simp add: weighted_result [OF w] Array_sort_stable)
    show "explanation (calculateScore fmt inputs weights)
            = map reason (take 3 (Array_sort byImpact ?fs))"
      by (simp add: weighted_result [OF w])
  qed
  moreover have "subseq (map name (factors (calculateScore fmt inputs weights))) evaluation_order"
    if w: "maintainerStatus inputs = None" "\<not> truthy_string (corporateBacking inputs)"
    by (simp add: weighted_result [OF w] accumulate_factors_order)
  ultimately show ?thesis using explanation_length [of fmt inputs weights] by blast
qed

lemma mixed_result:
  "map name (factors (calculateScore fmt0 mixed_inputs DEFAULT_WEIGHTS))
     = [''OC Balance'', ''GitHub Sponsors'', ''Solo Maintainer'', ''AI Disruption'']
   \<and> map impact (factors (calculateScore fmt0 mixed_inputs DEFAULT_WEIGHTS))
     = [2, 5, - 5 / 2, - 15]
   \<and> explanation (calculateScore fmt0 mixed_inputs DEFAULT_WEIGHTS)
     = [''Business model at risk from AI tools'', ''Has GitHub Sponsors enabled'',
        ''Single maintainer (bus factor risk)'']"
  by (simp add: calculateScore_def accumulate_def mixed_inputs_def Let_def truthy_string_def
      truthy_number_def truthy_bool_def normalizeDownloads_def normalizeDependents_def
      normalizeBalance_def normalizeIncome_def factorDownloads_def factorDependents_def
      factorBalance_def factorIncome_def factorSponsors_def factorMaintainers_def
      factorActivity_def factorAiDisruption_def factorImportance_def ecosystemImportance_def
      push_def add_score_def DEFAULT_WEIGHTS_def Array_sort_def byImpact_def)

theorem calculateScore_explanation_witness:
  "maintainerStatus mixed_inputs = None \<and> \<not> truthy_string (corporateBacking mixed_inputs)
   \<and> map name (factors (calculateScore fmt0 mixed_inputs DEFAULT_WEIGHTS))
     = [''OC Balance'', ''GitHub Sponsors'', ''Solo Maintainer'', ''AI Disruption'']
   \<and> map impact (factors (calculateScore fmt0 mixed_inputs DEFAULT_WEIGHTS))
     = [2, 5, - 5 / 2, - 15]
   \<and> explanation (calculateScore fmt0 mixed_inputs DEFAULT_WEIGHTS)
     = [''Business model at risk from AI tools'', ''Has GitHub Sponsors enabled'',
        ''Single maintainer (bus factor risk)'']
   \<and> subseq (map name (factors (calculateScore fmt0 mixed_inputs DEFAULT_WEIGHTS)))
        evaluation_order"
proof -
  have h: "maintainerStatus mixed_inputs = None \<and> \<not> truthy_string (corporateBacking mixed_inputs)"
    by (simp add: mixed_inputs_def truthy_string_def)
  with calculateScore_explanation [of fmt0 mixed_inputs DEFAULT_WEIGHTS]
  have "subseq (map name (factors (calculateScore fmt0 mixed_inputs DEFAULT_WEIGHTS)))
          evaluation_order" by blast
  with h mixed_result show ?thesis by blast
qed

section \<open>Allocation distributor\<close>

lemma foldl_plus_sum_list: "foldl (\<lambda>sum w. sum + w) a ws = a + sum_list (ws :: real list)"
  by (induction ws arbitrary: a) simp_all

lemma totalWeight_sum_list: "totalWeight packages = sum_list (map packageWeight packages)"
  by (simp add: totalWeight_def foldl_plus_sum_list)

lemma packageWeight_nonneg: "0 \<le> packageWeight pkg"
  by (simp add: packageWeight_def)

lemma totalWeight_corporate:
  "\<forall>pkg \<in> set packages. in_category pkg = Corporate \<Longrightarrow> totalWeight packages = 0"
  unfolding totalWeight_sum_list by (induction packages) (simp_all add: packageWeight_def)

lemma calculateAllocation_zero:
  "totalWeight packages = 0 \<Longrightarrow>
   calculateAllocation packages totalBudget =
     map (\<lambda>pkg. \<lparr>packageName = in_packageName pkg, percentage = 0, suggestedAmount = 0\<rparr>) packages"
  by (simp add: calculateAllocation_def)

text \<open>
  C6. When the total weight is 0, as it is when every package is corporate,
  \<open>calculateAllocation\<close> returns one output for each input, in order, with percentage 0 and
  suggested amount 0; for the empty list it returns the empty list.
\<close>

theorem calculateAllocation_zero_weight:
  "(totalWeight packages = 0 \<longrightarrow>
      length (calculateAllocation packages totalBudget) = length packages
      \<and> (\<forall>i < length packages.
            packageName (calculateAllocation packages totalBudget ! i)
              = in_packageName (packages ! i)
            \<and> percentage (calculateAllocation packages totalBudget ! i) = 0
            \<and> suggestedAmount (calculateAllocation packages totalBudget ! i) = 0))
   \<and> ((\<forall>pkg \<in> set packages. in_category pkg = Corporate) \<longrightarrow> totalWeight packages = 0)
   \<and> calculateAllocation [] totalBudget = []"
proof (intro conjI impI)
  assume "totalWeight packages = 0"
  note z = calculateAllocation_zero [OF this, of totalBudget]
  show "length (calculateAllocation packages totalBudget) = length packages"
    by (simp add: z)
  show "\<forall>i < length packages.
            packageName (calculateAllocation packages totalBudget ! i)
              = in_packageName (packages ! i)
            \<and> percentage (calculateAllocation packages totalBudget ! i) = 0
            \<and> suggestedAmount (calculateAllocation packages totalBudget ! i) = 0"
    by (simp add: z)
next
  assume "\<forall>pkg \<in> set packages. in_category pkg = Corporate"
  then show "totalWeight packages = 0" by (rule totalWeight_corporate)
next
  show "calculateAllocation [] totalBudget = []"
    by (simp add: calculateAllocation_def totalWeight_def)
qed

theorem calculateAllocation_zero_weight_witness:
  "map in_category pkgs_corporate = [Corporate, Corporate]
   \<and> totalWeight pkgs_corporate = 0
   \<and> map percentage (calculateAllocation pkgs_corporate 1000) = [0, 0]
   \<and> map suggestedAmount (calculateAllocation pkgs_corporate 1000) = [0, 0]
   \<and> map packageName (calculateAllocation pkgs_corporate 1000) = [''corp1'', ''corp2'']"
proof -
  have c: "\<forall>pkg \<in> set pkgs_corporate. in_category pkg = Corporate"
    by (simp add: pkgs_corporate_def)
  from calculateAllocation_zero_weight [of pkgs_corporate 1000] c
  have t: "totalWeight pkgs_corporate = 0" by blast
  with calculateAllocation_zero_weight [of pkgs_corporate 1000]
  have "length (calculateAllocation pkgs_corporate 1000) = length pkgs_corporate
      \<and> (\<forall>i < length pkgs_corporate.
            packageName (calculateAllocation pkgs_corporate 1000 ! i)
              = in_packageName (pkgs_corporate ! i)
            \<and> percentage (calculateAllocation pkgs_corporate 1000 ! i) = 0
            \<and> suggestedAmount (calculateAllocation pkgs_corporate 1000 ! i) = 0)" by blast
  then have "length (calculateAllocation pkgs_corporate 1000) = 2"
    and "\<forall>i < 2. packageName (calculateAllocation pkgs_corporate 1000 ! i)
              = in_packageName (pkgs_corporate ! i)
            \<and> percentage (calculateAllocation pkgs_corporate 1000 ! i) = 0
            \<and> suggestedAmount (calculateAllocation pkgs_corporate 1000 ! i) = 0"
    by (simp_all add: pkgs_corporate_def)
  then have "map percentage (calculateAllocation pkgs_corporate 1000) = [0, 0]
   \<and> map suggestedAmount (calculateAllocation pkgs_corporate 1000) = [0, 0]
   \<and> map packageName (calculateAllocation pkgs_corporate 1000) = [''corp1'', ''corp2'']"
    by (auto simp: list_eq_iff_nth_eq less_Suc_eq numeral_2_eq_2 pkgs_corporate_def)
  moreover have "map in_category pkgs_corporate = [Corporate, Corporate]"
    by (simp add: pkgs_corporate_def)
  ultimately show ?thesis using t by blast
qed

lemma totalWeight_pkgs_two: "totalWeight pkgs_two = 150"
  by (simp add: totalWeight_def pkgs_two_def packageWeight_def)

text \<open>
  C4 as stated fails: with two packages of weights 100 and 50 the first one is suggested
  666.67 out of 1000 and 66.67 out of 100, and 10 times 66.67 is 666.70.
\<close>

theorem calculateAllocation_scaling_counterexample:
  "suggestedAmount (calculateAllocation pkgs_two 1000 ! 0)
     \<noteq> 10 * suggestedAmount (calculateAllocation pkgs_two 100 ! 0)"
proof -
  have a: "suggestedAmount (calculateAllocation pkgs_two 1000 ! 0) = 66667 / 100"
    by (simp add: calculateAllocation_def totalWeight_pkgs_two Let_def Math_round_def)
       (simp add: pkgs_two_def packageWeight_def)
  have b: "suggestedAmount (calculateAllocation pkgs_two 100 ! 0) = 6667 / 100"
    by (simp add: calculateAllocation_def totalWeight_pkgs_two Let_def Math_round_def)
       (simp add: pkgs_two_def packageWeight_def)
  show ?thesis by (simp add: a b)
qed

lemma Math_round_times_10: "\<bar>Math_round (10 * y) - 10 * Math_round y\<bar> \<le> 5"
proof -
  let ?a = "\<lfloor>10 * y + 1 / 2\<rfloor>" and ?b = "\<lfloor>y + 1 / 2\<rfloor>"
  have "of_int ?a \<le> 10 * y + 1 / 2" "10 * y + 1 / 2 < of_int ?a + 1"
    "of_int ?b \<le> y + 1 / 2" "y + 1 / 2 < of_int ?b + 1"
    by linarith+
  then have "(of_int (?a - 10 * ?b) :: real) < 6" "(-6 :: real) < of_int (?a - 10 * ?b)"
    unfolding of_int_diff of_int_mult of_int_numeral by linarith+
  then have "?a - 10 * ?b < 6" "-6 < ?a - 10 * ?b"
    by linarith+
  then have "\<bar>?a - 10 * ?b\<bar> \<le> 5" by linarith
  then have "\<bar>(of_int (?a - 10 * ?b) :: real)\<bar> \<le> 5"
    by (metis of_int_abs of_int_le_iff of_int_numeral)
  then show ?thesis by (simp add: Math_round_def)
qed

lemma suggestedAmount_nth:
  "i < length pkgs \<Longrightarrow>
   suggestedAmount (calculateAllocation pkgs budget ! i)
     = (if totalWeight pkgs = 0 then 0
        else Math_round (packageWeight (pkgs ! i) / totalWeight pkgs * budget * 100) / 100)"
  by (simp add: calculateAllocation_def Let_def)

lemma Math_round_numeral: "Math_round (numeral n) = numeral n"
  by (simp add: Math_round_def)

text \<open>
  C4, amended. Each suggested amount is rounded to whole cents on its own, so the amount
  for a budget of 1000 is ten times the amount for a budget of 100 only up to that
  rounding: for every list of packages and every index the two differ by less than 0.06.
  (The rounding alone accounts for at most 0.05; the bound leaves room for the
  representation error of the amounts that the program returns as binary64 values, such as
  606.25 against 60.62.) The two are equal when the total weight is 0, and when the package
  carries the whole total weight, as the single package of the repository's test does: its
  share is then exactly 1 and the amounts are 1000 and 100.
\<close>

theorem calculateAllocation_scaling:
  assumes "i < length pkgs"
  shows "\<bar>suggestedAmount (calculateAllocation pkgs 1000 ! i)
           - 10 * suggestedAmount (calculateAllocation pkgs 100 ! i)\<bar> < 6 / 100
         \<and> (totalWeight pkgs = 0 \<or> packageWeight (pkgs ! i) = totalWeight pkgs \<longrightarrow>
            suggestedAmount (calculateAllocation pkgs 1000 ! i)
              = 10 * suggestedAmount (calculateAllocation pkgs 100 ! i))"
proof (cases "totalWeight pkgs = 0")
  case True
  with assms show ?thesis by (simp add: suggestedAmount_nth)
next
  case False
  let ?y = "packageWeight (pkgs ! i) / totalWeight pkgs * 100 * 100"
  have e: "packageWeight (pkgs ! i) / totalWeight pkgs * 1000 * 100 = 10 * ?y" by simp
  have a: "suggestedAmount (calculateAllocation pkgs 1000 ! i) = Math_round (10 * ?y) / 100"
    using assms False by (simp only: suggestedAmount_nth e if_False)
  have b: "suggestedAmount (calculateAllocation pkgs 100 ! i) = Math_round ?y / 100"
    using assms False by (simp only: suggestedAmount_nth if_False)
  have "\<bar>Math_round (10 * ?y) / 100 - 10 * (Math_round ?y / 100)\<bar> \<le> 5 / 100"
    using Math_round_times_10 [of ?y] by (simp add: field_simps)
  then have bound: "\<bar>Math_round (10 * ?y) / 100 - 10 * (Math_round ?y / 100)\<bar> < 6 / 100"
    by linarith
  have whole: "Math_round (10 * ?y) / 100 = 10 * (Math_round ?y / 100)"
    if "packageWeight (pkgs ! i) = totalWeight pkgs"
  proof -
    from that False have "?y = 10000" by simp
    then show ?thesis by (simp add: Math_round_numeral)
  qed
  from bound whole False show ?thesis unfolding a b by blast
qed

theorem calculateAllocation_scaling_witness:
  "(0::nat) < length pkgs_two
   \<and> suggestedAmount (calculateAllocation pkgs_two 1000 ! 0) = 66667 / 100
   \<and> suggestedAmount (calculateAllocation pkgs_two 100 ! 0) = 6667 / 100
   \<and> \<bar>suggestedAmount (calculateAllocation pkgs_two 1000 ! 0)
           - 10 * suggestedAmount (calculateAllocation pkgs_two 100 ! 0)\<bar> < 6 / 100
   \<and> (0::nat) < length pkgs_one
   \<and> packageWeight (pkgs_one ! 0) = totalWeight pkgs_one
   \<and> suggestedAmount (calculateAllocation pkgs_one 100 ! 0) = 100
   \<and> suggestedAmount (calculateAllocation pkgs_one 1000 ! 0)
        = 10 * suggestedAmount (calculateAllocation pkgs_one 100 ! 0)"
proof -
  have l: "0 < length pkgs_two" by (simp add: pkgs_two_def)
  have a: "suggestedAmount (calculateAllocation pkgs_two 1000 ! 0) = 66667 / 100"
    by (simp add: calculateAllocation_def totalWeight_pkgs_two Let_def Math_round_def)
       (simp add: pkgs_two_def packageWeight_def)
  have b: "suggestedAmount (calculateAllocation pkgs_two 100 ! 0) = 6667 / 100"
    by (simp add: calculateAllocation_def totalWeight_pkgs_two Let_def Math_round_def)
       (simp add: pkgs_two_def packageWeight_def)
  have l1: "0 < length pkgs_one" by (simp add: pkgs_one_def)
  have w: "packageWeight (pkgs_one ! 0) = totalWeight pkgs_one"
    by (simp add: totalWeight_def pkgs_one_def)
  have c: "suggestedAmount (calculateAllocation pkgs_one 100 ! 0) = 100"
    by (simp add: calculateAllocation_def totalWeight_def pkgs_one_def packageWeight_def
        Let_def Math_round_def)
  from calculateAllocation_scaling [OF l]
  have 1: "\<bar>suggestedAmount (calculateAllocation pkgs_two 1000 ! 0)
           - 10 * suggestedAmount (calculateAllocation pkgs_two 100 ! 0)\<bar> < 6 / 100"
    by blast
  from calculateAllocation_scaling [OF l1] w
  have 2: "suggestedAmount (calculateAllocation pkgs_one 1000 ! 0)
        = 10 * suggestedAmount (calculateAllocation pkgs_one 100 ! 0)"
    by blast
  from l a b 1 l1 w c 2 show ?thesis by blast
qed

section \<open>The model on the values of the repository's tests\<close>

text \<open>
  The expectations of \<^verbatim>\<open>scoring.test.ts\<close> that fix a value, computed on the model: the
  neutral base of 50, the solo-maintainer penalty, the cap of the maintainer bonus, and the
  importance penalty of a popular package without funding.
\<close>

lemmas weighted_defs =
  calculateScore_def accumulate_def Let_def truthy_string_def
  truthy_number_def truthy_bool_def normalizeDownloads_def normalizeDependents_def
  normalizeBalance_def normalizeIncome_def factorDownloads_def factorDependents_def
  factorBalance_def factorIncome_def factorSponsors_def factorMaintainers_def
  factorActivity_def factorAiDisruption_def factorImportance_def ecosystemImportance_def
  push_def add_score_def DEFAULT_WEIGHTS_def determineCategory_def CATEGORY_THRESHOLDS_def
  Math_round_def Array_sort_def byImpact_def

lemma test_base_score:
  "calculateScore fmt0 no_inputs DEFAULT_WEIGHTS
     = \<lparr>score = 50, category = NeedsSupport, explanation = [], factors = []\<rparr>"
  by (simp add: weighted_defs no_inputs_def)

lemma test_solo_maintainer:
  "score (calculateScore fmt0 (no_inputs\<lparr>maintainerCount := Some 1\<rparr>) DEFAULT_WEIGHTS) = 48
   \<and> category (calculateScore fmt0 (no_inputs\<lparr>maintainerCount := Some 1\<rparr>) DEFAULT_WEIGHTS)
       = NeedsSupport"
  by (simp add: weighted_defs no_inputs_def)

lemma test_maintainer_cap:
  "score (calculateScore fmt0 (no_inputs\<lparr>maintainerCount := Some 5\<rparr>) DEFAULT_WEIGHTS) = 55
   \<and> score (calculateScore fmt0 (no_inputs\<lparr>maintainerCount := Some 10\<rparr>) DEFAULT_WEIGHTS) = 55"
  by (simp add: weighted_defs no_inputs_def)

lemma log10_bounds:
  "7 < log 10 (10000000 + 1)" "3 < log 10 (5000 + 1)"
  by (simp_all add: less_log_iff)

lemma test_high_impact:
  "map name (factors (calculateScore fmt0
      (no_inputs\<lparr>weeklyDownloads := Some 10000000, dependentCount := Some 5000,
                  ocBalance := Some 0\<rparr>) DEFAULT_WEIGHTS))
     = [''Weekly Downloads'', ''Dependent Packages'', ''High Impact, Low Funding'']"
proof -
  let ?d = "min 1 (log 10 (10000000 + 1) / 9)" and ?p = "min 1 (log 10 (5000 + 1) / 4)"
  have d: "7 / 9 < ?d" and p: "3 / 4 < ?p"
    using log10_bounds by (simp_all add: min_def)
  then have e: "3 / 10 < ?d * (6 / 10) + ?p * (4 / 10)" by linarith
  from d have d0: "0 < ?d" by linarith
  from p have p0: "0 < ?p" by linarith
  have nd: "normalizeDownloads (Some 10000000) = Num ?d"
    and np: "normalizeDependents (Some 5000) = Num ?p"
    by (simp_all add: normalizeDownloads_def normalizeDependents_def truthy_number_def
        Math_log10_def)
  show ?thesis
    using d0 p0 e
    by (simp add: calculateScore_def accumulate_def Let_def no_inputs_def nd np truthy_string_def
        truthy_number_def truthy_bool_def
        normalizeBalance_def normalizeIncome_def factorDownloads_def factorDependents_def
        factorBalance_def factorIncome_def factorSponsors_def factorMaintainers_def
        factorActivity_def factorAiDisruption_def factorImportance_def ecosystemImportance_def
        push_def add_score_def DEFAULT_WEIGHTS_def)
qed

end
